theory Spec2Isabelle
  imports Main
begin

section \<open>NBA ingestion script: data model\<close>

text \<open>
  The script \<^verbatim>\<open>scripts/ingest_nba_data.py\<close> consists of three functions. Two of them
  call the statistics service through the \<^verbatim>\<open>nba_api\<close> client, the third writes two
  data frames into a DuckDB file. The functions are embedded with explicit state passing:
  the fetchers thread the state of the upstream service (with a log of the requests that
  were sent), the loader threads the state of the file store. Every exception of the
  Python code is a value \<open>Inl e\<close>.
\<close>

subsection \<open>Tables\<close>

text \<open>
  A pandas data frame and a DuckDB table are both a list of column names with a list of
  rows. A cell is null, an integer or a text. How DuckDB reads a frame is written out
  in the section on the loader.
\<close>

datatype cell = CNull | CInt int | CText string

record table =
  columns :: "string list"
  rows :: "cell list list"

subsection \<open>Errors\<close>

datatype error =
    UpstreamError       \<comment> \<open>any failure raised by the \<^verbatim>\<open>nba_api\<close> request\<close>
  | IndexError          \<comment> \<open>Python list index out of range\<close>
  | ValueError          \<comment> \<open>pandas: DataFrame constructor not properly called\<close>
  | IOException         \<comment> \<open>\<^verbatim>\<open>duckdb.connect\<close> cannot open the file\<close>
  | CatalogException    \<comment> \<open>DuckDB: a schema or relation of a statement does not exist\<close>
  | InvalidInputException \<comment> \<open>DuckDB: a data frame without columns\<close>
  | StoreException      \<comment> \<open>DuckDB: the store rejects a statement\<close>
  | ConnectionException \<comment> \<open>DuckDB: the connection is not open\<close>

section \<open>Fetcher\<close>

subsection \<open>The upstream service and the \<^verbatim>\<open>nba_api\<close> endpoints\<close>

text \<open>
  A request names the endpoint and the keyword arguments that the script passes; all other
  parameters of the endpoint keep the defaults of the client library. The service answers
  a request with a list of result sets or with a failure. \<open>sent\<close> logs the requests in the
  order in which they were issued. \<open>current_season\<close> is the label of the season in
  progress at the time of the run; it belongs to the world, the script never reads it.
\<close>

datatype request =
    CommonAllPlayersReq int        \<comment> \<open>\<^verbatim>\<open>is_only_current_season\<close>\<close>
  | LeagueDashPlayerStatsReq string  \<comment> \<open>\<^verbatim>\<open>season\<close>\<close>

record upstream =
  respond :: "request \<Rightarrow> error + table list"
  sent :: "request list"
  current_season :: string

text \<open>
  An endpoint object of \<^verbatim>\<open>nba_api\<close> keeps the result sets of its response. Its
  constructor sends the request at once and raises when the request fails.
\<close>

record endpoint =
  data_sets :: "table list"

definition get_request :: "request \<Rightarrow> upstream \<Rightarrow> (error + endpoint) \<times> upstream" where
  "get_request req w =
     (let w' = w\<lparr>sent := sent w @ [req]\<rparr>
      in case respond w req of
           Inl e \<Rightarrow> (Inl e, w')
         | Inr sets \<Rightarrow> (Inr \<lparr>data_sets = sets\<rparr>, w'))"

definition CommonAllPlayers :: "int \<Rightarrow> upstream \<Rightarrow> (error + endpoint) \<times> upstream" where
  "CommonAllPlayers is_only_current_season = get_request (CommonAllPlayersReq is_only_current_season)"

definition LeagueDashPlayerStats :: "string \<Rightarrow> upstream \<Rightarrow> (error + endpoint) \<times> upstream" where
  "LeagueDashPlayerStats season = get_request (LeagueDashPlayerStatsReq season)"

definition get_data_frames :: "endpoint \<Rightarrow> table list" where
  "get_data_frames ep = data_sets ep"

text \<open>
  The service includes the players of past seasons in the directory exactly when the
  parameter \<^verbatim>\<open>is_only_current_season\<close> is 0.
\<close>

fun includes_historical :: "request \<Rightarrow> bool" where
  "includes_historical (CommonAllPlayersReq flag) = (flag = 0)"
| "includes_historical (LeagueDashPlayerStatsReq season) = False"

subsection \<open>The pandas constructor\<close>

text \<open>
  \<^verbatim>\<open>pd.DataFrame(data)\<close> dispatches on the kind of its argument. Two kinds of Python
  objects occur here: a data frame, which is taken over, and an endpoint object of
  \<^verbatim>\<open>nba_api\<close>. The endpoint class is a plain class (no mapping, no array, not
  iterable), and for such an argument given without index and columns the constructor
  raises \<^verbatim>\<open>ValueError("DataFrame constructor not properly called!")\<close>.
\<close>

datatype pyobj = PyDataFrame table | PyEndpoint endpoint

fun pd_DataFrame :: "pyobj \<Rightarrow> error + table" where
  "pd_DataFrame (PyDataFrame df) = Inr df"
| "pd_DataFrame (PyEndpoint ep) = Inl ValueError"

subsection \<open>The two fetch functions\<close>

text \<open>
  \<^verbatim>\<open>
  def fetch_player_metadata() -> pd.DataFrame:
      player_data = commonallplayers.CommonAllPlayers(is_only_current_season=0)
      return pd.DataFrame(player_data)
  \<close>
\<close>

definition fetch_player_metadata :: "upstream \<Rightarrow> (error + table) \<times> upstream" where
  "fetch_player_metadata w =
     (case CommonAllPlayers 0 w of
        (Inl e, w') \<Rightarrow> (Inl e, w')
      | (Inr player_data, w') \<Rightarrow> (pd_DataFrame (PyEndpoint player_data), w'))"

text \<open>
  \<^verbatim>\<open>
  def fetch_player_stats(season: str = "2024-25") -> pd.DataFrame:
      stats = leaguedashplayerstats.LeagueDashPlayerStats(season=season)
      df_stats = stats.get_data_frames()[0]
      return df_stats
  \<close>
  Indexing an empty list with \<^verbatim>\<open>[0]\<close> raises \<^verbatim>\<open>IndexError\<close>.
\<close>

definition fetch_player_stats :: "string \<Rightarrow> upstream \<Rightarrow> (error + table) \<times> upstream" where
  "fetch_player_stats season w =
     (case LeagueDashPlayerStats season w of
        (Inl e, w') \<Rightarrow> (Inl e, w')
      | (Inr stats, w') \<Rightarrow>
          (case get_data_frames stats of
             [] \<Rightarrow> (Inl IndexError, w')
           | df_stats # _ \<Rightarrow> (Inr df_stats, w')))"

text \<open>The call without an argument takes the default of the signature.\<close>

definition fetch_player_stats_default :: "upstream \<Rightarrow> (error + table) \<times> upstream" where
  "fetch_player_stats_default = fetch_player_stats ''2024-25''"

section \<open>Loader\<close>

subsection \<open>The DuckDB store\<close>

text \<open>
  A database file holds a set of schemas and a catalog of tables, keyed by schema and
  table name. The store maps paths to database files and keeps the list of the
  connections that are open. A database that DuckDB creates has the schema \<^verbatim>\<open>main\<close>
  and no table; \<^verbatim>\<open>main\<close> is the schema in which a name without a schema is looked up.
\<close>

record database =
  schemas :: "string set"
  tables :: "string \<times> string \<rightharpoonup> table"

record store =
  files :: "string \<rightharpoonup> database"
  handles :: "string list"

definition empty_database :: database where
  "empty_database = \<lparr>schemas = {''main''}, tables = Map.empty\<rparr>"

text \<open>
  The two kinds of statements of the script. A statement is SQL text: in
  \<^verbatim>\<open>create or replace table raw.players as select * from df_players\<close> the source is
  the name \<^verbatim>\<open>df_players\<close> and nothing else; the data frame is not passed to
  \<^verbatim>\<open>execute\<close>.
\<close>

datatype statement =
    CreateSchemaIfNotExists string
  | CreateOrReplaceTableAs string string string
      \<comment> \<open>schema and name of the table, name of the relation that is selected from\<close>

subsection \<open>Reading a data frame\<close>

text \<open>
  DuckDB does not take a frame without columns. A frame is regular when it has at least
  one column, its column names are not empty and differ from one another also when
  upper and lower case are identified (as DuckDB does for identifiers), every row has one
  cell for each column, every integer fits in 64 bits, and no column mixes integers with
  text. A regular frame is read as it is. Any other frame with a column is read too, but
  converted (columns renamed, cells coerced); the conversion is left to the engine, as the
  function \<open>convert\<close>.
\<close>

definition lower :: "char \<Rightarrow> char" where
  "lower c =
     (case map_of (zip ''ABCDEFGHIJKLMNOPQRSTUVWXYZ'' ''abcdefghijklmnopqrstuvwxyz'') c of
        None \<Rightarrow> c
      | Some d \<Rightarrow> d)"

definition column_names_ok :: "string list \<Rightarrow> bool" where
  "column_names_ok names =
     (names \<noteq> [] \<and> [] \<notin> set names \<and> distinct (map (map lower) names))"

fun is_int :: "cell \<Rightarrow> bool" where
  "is_int (CInt n) = True"
| "is_int c = False"

fun is_text :: "cell \<Rightarrow> bool" where
  "is_text (CText s) = True"
| "is_text c = False"

fun in_int64 :: "cell \<Rightarrow> bool" where
  "in_int64 (CInt n) = (- (2 ^ 63) \<le> n \<and> n < 2 ^ 63)"
| "in_int64 c = True"

definition uniform :: "cell list \<Rightarrow> bool" where
  "uniform cells = (\<not> (list_ex is_int cells \<and> list_ex is_text cells))"

definition column_cells :: "table \<Rightarrow> nat \<Rightarrow> cell list" where
  "column_cells df i = map (\<lambda>r. r ! i) (rows df)"

definition regular_frame :: "table \<Rightarrow> bool" where
  "regular_frame df =
     (column_names_ok (columns df)
      \<and> list_all (\<lambda>r. length r = length (columns df)) (rows df)
      \<and> list_all (list_all in_int64) (rows df)
      \<and> list_all (\<lambda>i. uniform (column_cells df i)) [0..<length (columns df)])"

text \<open>
  The engine is the part of DuckDB that the model takes as given. It may fail for reasons
  of its own (the file cannot be opened, the disk is full): \<open>connect_fails\<close> says for
  which paths opening fails, \<open>execute_fails\<close> which statements the store rejects. Both
  see the SQL text only, not the frames. \<open>convert\<close> is the conversion of the frames that
  are not regular.
\<close>

record engine =
  connect_fails :: "string \<Rightarrow> bool"
  execute_fails :: "statement \<Rightarrow> bool"
  convert :: "table \<Rightarrow> table"

definition scan_frame :: "engine \<Rightarrow> table \<Rightarrow> error + table" where
  "scan_frame env df =
     (if columns df = [] then Inl InvalidInputException
      else if regular_frame df then Inr df
      else Inr (convert env df))"

text \<open>
  The relation that a name without schema stands for: a table of that name in the schema
  \<^verbatim>\<open>main\<close> of the database, when there is one; otherwise the data frame that a Python
  variable of that name holds in the function that calls \<^verbatim>\<open>execute\<close> (DuckDB's
  replacement scan); otherwise nothing.
\<close>

definition resolve :: "engine \<Rightarrow> (string \<rightharpoonup> table) \<Rightarrow> database \<Rightarrow> string \<Rightarrow> error + table" where
  "resolve env pyvars db name =
     (case tables db (''main'', name) of
        Some t \<Rightarrow> Inr t
      | None \<Rightarrow>
          (case pyvars name of
             Some df \<Rightarrow> scan_frame env df
           | None \<Rightarrow> Inl CatalogException))"

subsection \<open>Statements and connections\<close>

text \<open>
  What a statement does to a database when the store carries it out: creating a schema
  that exists changes nothing; a table is replaced as a whole by the relation that is
  selected from; a table cannot be created in a schema that does not exist.
\<close>

fun apply_statement :: "engine \<Rightarrow> (string \<rightharpoonup> table) \<Rightarrow> statement \<Rightarrow> database \<Rightarrow> error + database" where
  "apply_statement env pyvars (CreateSchemaIfNotExists s) db =
     Inr (db\<lparr>schemas := insert s (schemas db)\<rparr>)"
| "apply_statement env pyvars (CreateOrReplaceTableAs s t name) db =
     (if s \<in> schemas db
      then (case resolve env pyvars db name of
              Inl e \<Rightarrow> Inl e
            | Inr r \<Rightarrow> Inr (db\<lparr>tables := (tables db)((s, t) \<mapsto> r)\<rparr>))
      else Inl CatalogException)"

type_synonym connection = string

text \<open>\<^verbatim>\<open>duckdb.connect(db_path)\<close> creates the database file when there is none.\<close>

definition connect :: "engine \<Rightarrow> string \<Rightarrow> store \<Rightarrow> (error + connection) \<times> store" where
  "connect env db_path st =
     (if connect_fails env db_path then (Inl IOException, st)
      else (Inr db_path,
            st\<lparr>files := (files st)(db_path \<mapsto>
                    (case files st db_path of None \<Rightarrow> empty_database | Some db \<Rightarrow> db)),
               handles := db_path # handles st\<rparr>))"

definition close :: "connection \<Rightarrow> store \<Rightarrow> store" where
  "close con st = st\<lparr>handles := remove1 con (handles st)\<rparr>"

text \<open>
  A statement runs in a transaction of its own: a statement that fails leaves the
  database as it was, and one that succeeds is committed at once. \<open>pyvars\<close> are the
  variables of the calling Python function that hold a data frame.
\<close>

definition execute ::
  "engine \<Rightarrow> connection \<Rightarrow> (string \<rightharpoonup> table) \<Rightarrow> statement \<Rightarrow> store \<Rightarrow> (error + unit) \<times> store" where
  "execute env con pyvars stmt st =
     (if con \<notin> set (handles st) then (Inl ConnectionException, st)
      else case files st con of
        None \<Rightarrow> (Inl IOException, st)
      | Some db \<Rightarrow>
          if execute_fails env stmt then (Inl StoreException, st)
          else (case apply_statement env pyvars stmt db of
                  Inl e \<Rightarrow> (Inl e, st)
                | Inr db' \<Rightarrow> (Inr (), st\<lparr>files := (files st)(con \<mapsto> db')\<rparr>)))"

subsection \<open>The load function\<close>

text \<open>
  \<^verbatim>\<open>
  def load_to_duckdb(df_players, df_player_stats, db_path="../duckdb/nba.duckdb"):
      sql_raw_players = """
      create or replace table raw.players as
      select * from df_players
      """
      sql_raw_player_stats = """
      create or replace table raw.player_stats as
      select * from df_player_stats
      """
      with duckdb.connect(db_path) as con:
          con.execute("create schema if not exists raw")
          con.execute(sql_raw_players)
          con.execute(sql_raw_player_stats)
  \<close>
  The \<^verbatim>\<open>with\<close> block closes the connection on every way out of its body; when
  \<^verbatim>\<open>connect\<close> itself raises, the body is not entered. The two frames are the local
  variables \<^verbatim>\<open>df_players\<close> and \<^verbatim>\<open>df_player_stats\<close> of the function.
\<close>

definition sql_raw_players :: statement where
  "sql_raw_players = CreateOrReplaceTableAs ''raw'' ''players'' ''df_players''"

definition sql_raw_player_stats :: statement where
  "sql_raw_player_stats = CreateOrReplaceTableAs ''raw'' ''player_stats'' ''df_player_stats''"

definition sql_create_schema :: statement where
  "sql_create_schema = CreateSchemaIfNotExists ''raw''"

definition load_locals :: "table \<Rightarrow> table \<Rightarrow> (string \<rightharpoonup> table)" where
  "load_locals df_players df_player_stats =
     [''df_players'' \<mapsto> df_players, ''df_player_stats'' \<mapsto> df_player_stats]"

definition load_body :: "engine \<Rightarrow> connection \<Rightarrow> table \<Rightarrow> table \<Rightarrow> store \<Rightarrow> (error + unit) \<times> store" where
  "load_body env con df_players df_player_stats st =
     (let pyvars = load_locals df_players df_player_stats
      in case execute env con pyvars sql_create_schema st of
           (Inl e, st1) \<Rightarrow> (Inl e, st1)
         | (Inr _, st1) \<Rightarrow>
             (case execute env con pyvars sql_raw_players st1 of
                (Inl e, st2) \<Rightarrow> (Inl e, st2)
              | (Inr _, st2) \<Rightarrow> execute env con pyvars sql_raw_player_stats st2))"

definition load_to_duckdb :: "engine \<Rightarrow> table \<Rightarrow> table \<Rightarrow> string \<Rightarrow> store \<Rightarrow> (error + unit) \<times> store" where
  "load_to_duckdb env df_players df_player_stats db_path st =
     (case connect env db_path st of
        (Inl e, st0) \<Rightarrow> (Inl e, st0)
      | (Inr con, st0) \<Rightarrow>
          (case load_body env con df_players df_player_stats st0 of
             (r, st3) \<Rightarrow> (r, close con st3)))"

definition load_to_duckdb_default :: "engine \<Rightarrow> table \<Rightarrow> table \<Rightarrow> store \<Rightarrow> (error + unit) \<times> store" where
  "load_to_duckdb_default env df_players df_player_stats =
     load_to_duckdb env df_players df_player_stats ''../duckdb/nba.duckdb''"

subsection \<open>The call seen from the database\<close>

text \<open>
  Two auxiliary functions for the proofs, derived from the definitions above (lemma
  \<open>load_to_duckdb_run\<close>): \<open>run\<close> is what \<open>execute\<close> does to the database of an open
  connection, \<open>run_load\<close> is what the body of the \<^verbatim>\<open>with\<close> block does to it.
\<close>

definition run :: "engine \<Rightarrow> (string \<rightharpoonup> table) \<Rightarrow> statement \<Rightarrow> database \<Rightarrow> error + database" where
  "run env pyvars stmt db =
     (if execute_fails env stmt then Inl StoreException
      else apply_statement env pyvars stmt db)"

definition run_load :: "engine \<Rightarrow> table \<Rightarrow> table \<Rightarrow> database \<Rightarrow> (error + unit) \<times> database" where
  "run_load env df_players df_player_stats db =
     (let pyvars = load_locals df_players df_player_stats
      in case run env pyvars sql_create_schema db of
           Inl e \<Rightarrow> (Inl e, db)
         | Inr db1 \<Rightarrow>
             (case run env pyvars sql_raw_players db1 of
                Inl e \<Rightarrow> (Inl e, db1)
              | Inr db2 \<Rightarrow>
                  (case run env pyvars sql_raw_player_stats db2 of
                     Inl e \<Rightarrow> (Inl e, db2)
                   | Inr db3 \<Rightarrow> (Inr (), db3))))"

definition opened :: "store \<Rightarrow> string \<Rightarrow> database" where
  "opened st db_path = (case files st db_path of None \<Rightarrow> empty_database | Some db \<Rightarrow> db)"

text \<open>
  The relation that a name of the loader stands for in a database: the table of that
  name in \<^verbatim>\<open>main\<close>, or else the frame as DuckDB reads it.
\<close>

definition relation_for :: "engine \<Rightarrow> database \<Rightarrow> string \<Rightarrow> table \<Rightarrow> error + table" where
  "relation_for env db name df =
     (case tables db (''main'', name) of
        Some t \<Rightarrow> Inr t
      | None \<Rightarrow> scan_frame env df)"

subsection \<open>Observing the destination\<close>

text \<open>
  The contents of a table of the destination, \<open>None\<close> when the file or the table does not
  exist, and the set of schemas of the destination.
\<close>

definition table_at :: "store \<Rightarrow> string \<Rightarrow> string \<Rightarrow> string \<Rightarrow> table option" where
  "table_at st db_path s t =
     (case files st db_path of None \<Rightarrow> None | Some db \<Rightarrow> tables db (s, t))"

definition schemas_at :: "store \<Rightarrow> string \<Rightarrow> string set" where
  "schemas_at st db_path =
     (case files st db_path of None \<Rightarrow> {} | Some db \<Rightarrow> schemas db)"

text \<open>
  The relation that a statement of the loader selects from, seen from the store before
  the call: the table of that name in \<^verbatim>\<open>main\<close> of the destination, or else the frame.
\<close>

definition source :: "engine \<Rightarrow> store \<Rightarrow> string \<Rightarrow> string \<Rightarrow> table \<Rightarrow> error + table" where
  "source env st db_path name df =
     (case table_at st db_path ''main'' name of
        Some t \<Rightarrow> Inr t
      | None \<Rightarrow> scan_frame env df)"

text \<open>The store opens the file and rejects none of the three statements.\<close>

definition store_accepts :: "engine \<Rightarrow> string \<Rightarrow> bool" where
  "store_accepts env db_path =
     (\<not> connect_fails env db_path
      \<and> \<not> execute_fails env sql_create_schema
      \<and> \<not> execute_fails env sql_raw_players
      \<and> \<not> execute_fails env sql_raw_player_stats)"

text \<open>The destination with one more schema, when the file exists.\<close>

definition add_schema :: "string \<Rightarrow> string \<Rightarrow> store \<Rightarrow> store" where
  "add_schema s db_path st =
     (case files st db_path of
        None \<Rightarrow> st
      | Some db \<Rightarrow> st\<lparr>files := (files st)(db_path \<mapsto> db\<lparr>schemas := insert s (schemas db)\<rparr>)\<rparr>)"

subsection \<open>The script\<close>

text \<open>
  \<^verbatim>\<open>
  df_players = fetch_player_metadata()
  df_player_stats = fetch_player_stats()
  load_to_duckdb(df_players, df_player_stats)
  \<close>
  An exception ends the run at the call that raises it.
\<close>

definition main_script :: "engine \<Rightarrow> upstream \<Rightarrow> store \<Rightarrow> (error + unit) \<times> upstream \<times> store" where
  "main_script env w st =
     (case fetch_player_metadata w of
        (Inl e, w1) \<Rightarrow> (Inl e, w1, st)
      | (Inr df_players, w1) \<Rightarrow>
          (case fetch_player_stats_default w1 of
             (Inl e, w2) \<Rightarrow> (Inl e, w2, st)
           | (Inr df_player_stats, w2) \<Rightarrow>
               (case load_to_duckdb_default env df_players df_player_stats st of
                  (r, st') \<Rightarrow> (r, w2, st'))))"

subsection \<open>Concrete inputs\<close>

definition players3 :: table where
  "players3 = \<lparr>columns = [''PERSON_ID'', ''DISPLAY_FIRST_LAST''],
               rows = [[CInt 76001, CText ''Alaa Abdelnaby''],
                       [CInt 2544, CText ''LeBron James''],
                       [CInt 201939, CText ''Stephen Curry'']]\<rparr>"

definition stats2 :: table where
  "stats2 = \<lparr>columns = [''PLAYER_ID'', ''GP'', ''PTS''],
             rows = [[CInt 2544, CInt 70, CInt 1708],
                     [CInt 201939, CInt 70, CInt 1718]]\<rparr>"

definition old_players :: table where
  "old_players = \<lparr>columns = [''PERSON_ID'', ''DISPLAY_FIRST_LAST''],
                 rows = [[CInt 893, CText ''Michael Jordan'']]\<rparr>"

definition old_stats :: table where
  "old_stats = \<lparr>columns = [''PLAYER_ID'', ''GP'', ''PTS''],
                rows = [[CInt 893, CInt 82, CInt 2491]]\<rparr>"



definition extra_set :: table where
  "extra_set = \<lparr>columns = [''SEASON_ID''], rows = [[CText ''22024'']]\<rparr>"

text \<open>A service that answers every request, and the states of the world used below.\<close>

definition answer :: "request \<Rightarrow> error + table list" where
  "answer req =
     (case req of
        CommonAllPlayersReq flag \<Rightarrow> Inr [players3]
      | LeagueDashPlayerStatsReq season \<Rightarrow> Inr [stats2, extra_set])"

definition world_2024_25 :: upstream where
  "world_2024_25 = \<lparr>respond = answer, sent = [], current_season = ''2024-25''\<rparr>"

definition world_2025_26 :: upstream where
  "world_2025_26 = \<lparr>respond = answer, sent = [], current_season = ''2025-26''\<rparr>"

text \<open>
  Stores: no file at all; a file that holds both tables from an earlier run; and a file
  that holds, in \<^verbatim>\<open>main\<close>, a table with the name of the Python variable
  \<^verbatim>\<open>df_players\<close>.
\<close>

definition no_files :: store where
  "no_files = \<lparr>files = Map.empty, handles = []\<rparr>"

definition old_database :: database where
  "old_database =
     \<lparr>schemas = {''main'', ''raw''},
      tables = [(''raw'', ''players'') \<mapsto> old_players,
                (''raw'', ''player_stats'') \<mapsto> old_stats]\<rparr>"

definition old_files :: store where
  "old_files = \<lparr>files = [''nba.duckdb'' \<mapsto> old_database], handles = []\<rparr>"



text \<open>Engines: without failures, and with a failure of one of the three statements.\<close>

definition no_faults :: engine where
  "no_faults =
     \<lparr>connect_fails = (\<lambda>p. False), execute_fails = (\<lambda>s. False), convert = (\<lambda>df. df)\<rparr>"


definition players_write_fails :: engine where
  "players_write_fails =
     \<lparr>connect_fails = (\<lambda>p. False),
      execute_fails = (\<lambda>s. s = sql_raw_players),
      convert = (\<lambda>df. df)\<rparr>"

section \<open>Properties of the fetcher\<close>

lemmas fetcher_defs =
  fetch_player_metadata_def fetch_player_stats_def fetch_player_stats_default_def
  CommonAllPlayers_def LeagueDashPlayerStats_def get_request_def get_data_frames_def

lemma get_request_sent: "sent (snd (get_request req w)) = sent w @ [req]"
  by (simp add: get_request_def Let_def split: sum.splits)

lemma fetch_player_metadata_sent:
  "sent (snd (fetch_player_metadata w)) = sent w @ [CommonAllPlayersReq 0]"
  using get_request_sent [of "CommonAllPlayersReq 0" w]
  by (auto simp: fetch_player_metadata_def CommonAllPlayers_def split: prod.splits sum.splits)

text \<open>A failure of the request is passed on as it is, by both functions.\<close>

lemma fetch_player_metadata_upstream_error:
  "respond w (CommonAllPlayersReq 0) = Inl e \<Longrightarrow> fst (fetch_player_metadata w) = Inl e"
  by (simp add: fetcher_defs Let_def)

lemma fetch_player_stats_upstream_error:
  "respond w (LeagueDashPlayerStatsReq season) = Inl e \<Longrightarrow>
   fst (fetch_player_stats season w) = Inl e"
  by (simp add: fetcher_defs Let_def)

lemma fetch_player_stats_no_result_set:
  "respond w (LeagueDashPlayerStatsReq season) = Inr [] \<Longrightarrow>
   fst (fetch_player_stats season w) = Inl IndexError"
  by (simp add: fetcher_defs Let_def)

text \<open>
  Claim C2. When the service answers the request for the season with the result sets
  \<open>first_set # more_sets\<close>, \<open>fetch_player_stats\<close> returns \<open>first_set\<close>, whatever
  and however many the other sets are. The function has no argument that selects
  another set.
\<close>

theorem fetch_player_stats_first_result_set:
  assumes "respond w (LeagueDashPlayerStatsReq season) = Inr (first_set # more_sets)"
  shows "fst (fetch_player_stats season w) = Inr first_set"
  using assms by (simp add: fetcher_defs Let_def)

theorem fetch_player_stats_first_result_set_witness:
  "respond world_2024_25 (LeagueDashPlayerStatsReq ''2023-24'') = Inr (stats2 # [extra_set])
   \<and> fst (fetch_player_stats ''2023-24'' world_2024_25) = Inr stats2"
proof -
  have h: "respond world_2024_25 (LeagueDashPlayerStatsReq ''2023-24'') = Inr (stats2 # [extra_set])"
    by (simp add: world_2024_25_def answer_def)
  from h fetch_player_stats_first_result_set [OF h] show ?thesis by (rule conjI)
qed

text \<open>
  The directory function hands the endpoint object itself to the pandas constructor,
  where \<open>fetch_player_stats\<close> takes \<^verbatim>\<open>get_data_frames()[0]\<close>. So it never returns a
  table: it raises the error of the request or the \<^verbatim>\<open>ValueError\<close> of the constructor.
\<close>

lemma fetch_player_metadata_no_table: "fetch_player_metadata w \<noteq> (Inr df, w')"
  by (simp add: fetcher_defs Let_def split: sum.splits)

lemma fetch_player_metadata_answered:
  "respond w (CommonAllPlayersReq 0) = Inr sets \<Longrightarrow>
   fst (fetch_player_metadata w) = Inl ValueError"
  by (simp add: fetcher_defs Let_def)

text \<open>
  Claim C3 says that the table returned by \<open>fetch_player_metadata\<close> has the rows and
  columns of the upstream response. On the code this fails: for the service that answers
  the directory request with the one result set \<open>players3\<close>, the function returns no
  table but raises \<^verbatim>\<open>ValueError\<close>.
\<close>

theorem fetch_player_metadata_raises:
  "respond world_2024_25 (CommonAllPlayersReq 0) = Inr [players3]
   \<and> fst (fetch_player_metadata world_2024_25) = Inl ValueError
   \<and> fst (fetch_player_metadata world_2024_25) \<noteq> Inr players3"
  by (simp add: fetcher_defs Let_def world_2024_25_def answer_def)

text \<open>
  Claim C7, as amended. Called without an argument, \<open>fetch_player_stats\<close> sends exactly
  one request, and its season is the fixed label \<^verbatim>\<open>2024-25\<close> of the signature,
  whatever the season in progress is.
\<close>

theorem fetch_player_stats_default_season:
  "sent (snd (fetch_player_stats_default w)) = sent w @ [LeagueDashPlayerStatsReq ''2024-25'']"
  by (simp add: fetcher_defs Let_def split: sum.splits list.splits)

text \<open>
  Claim C7 as it is written fails: in a run during the season \<^verbatim>\<open>2025-26\<close> the request
  of the call without an argument is not for the current season.
\<close>

theorem fetch_player_stats_default_not_current:
  "last (sent (snd (fetch_player_stats_default world_2025_26)))
     \<noteq> LeagueDashPlayerStatsReq (current_season world_2025_26)"
  by (simp add: fetcher_defs Let_def world_2025_26_def answer_def)

text \<open>
  Claim C8. Whatever the state of the upstream service, a call of
  \<open>fetch_player_metadata\<close> issues exactly one request, this request is the player
  directory with \<^verbatim>\<open>is_only_current_season = 0\<close>, and so it asks for the historical
  players too. The function has no argument besides the service, hence nothing a caller
  passes can change the flag.
\<close>

theorem fetch_player_metadata_requests_historical:
  "sent (snd (fetch_player_metadata w)) = sent w @ [CommonAllPlayersReq 0]
   \<and> includes_historical (last (sent (snd (fetch_player_metadata w))))"
  by (simp add: fetch_player_metadata_sent)

section \<open>Properties of the loader\<close>

subsection \<open>From the store to the database of the connection\<close>

lemma execute_run:
  assumes "con \<in> set (handles st)" and "files st con = Some db"
  shows "execute env con pv stmt st =
     (case run env pv stmt db of
        Inl e \<Rightarrow> (Inl e, st)
      | Inr db' \<Rightarrow> (Inr (), st\<lparr>files := (files st)(con \<mapsto> db')\<rparr>))"
  using assms by (simp add: execute_def run_def split: sum.splits)

lemma load_body_run:
  assumes "con \<in> set (handles st)" and "files st con = Some db"
  shows "load_body env con P S st =
     (fst (run_load env P S db), st\<lparr>files := (files st)(con \<mapsto> snd (run_load env P S db))\<rparr>)"
proof -
  have triv: "st\<lparr>files := (files st)(con \<mapsto> db)\<rparr> = st"
    using assms(2) by (simp add: map_upd_triv)
  have step: "\<And>d stmt. execute env con (load_locals P S) stmt (st\<lparr>files := (files st)(con \<mapsto> d)\<rparr>) =
     (case run env (load_locals P S) stmt d of
        Inl e \<Rightarrow> (Inl e, st\<lparr>files := (files st)(con \<mapsto> d)\<rparr>)
      | Inr db' \<Rightarrow> (Inr (), st\<lparr>files := (files st)(con \<mapsto> db')\<rparr>))"
    using assms(1) by (simp add: execute_run split: sum.splits)
  have first: "\<And>stmt. execute env con (load_locals P S) stmt st =
     (case run env (load_locals P S) stmt db of
        Inl e \<Rightarrow> (Inl e, st\<lparr>files := (files st)(con \<mapsto> db)\<rparr>)
      | Inr db' \<Rightarrow> (Inr (), st\<lparr>files := (files st)(con \<mapsto> db')\<rparr>))"
    using step [of _ db] by (simp only: triv)
  show ?thesis
    by (simp add: load_body_def run_load_def Let_def first step split: sum.splits)
qed

text \<open>
  The call opens the file (creating it when it is missing), runs the three statements on
  its database, and closes the connection again.
\<close>

lemma load_to_duckdb_run:
  "load_to_duckdb env P S p st =
     (if connect_fails env p then (Inl IOException, st)
      else (fst (run_load env P S (opened st p)),
            st\<lparr>files := (files st)(p \<mapsto> snd (run_load env P S (opened st p)))\<rparr>))"
  by (simp add: load_to_duckdb_def connect_def close_def load_body_run opened_def)

lemma table_at_opened: "table_at st p s t = tables (opened st p) (s, t)"
  by (simp add: table_at_def opened_def empty_database_def split: option.splits)

lemma source_opened: "source env st p name df = relation_for env (opened st p) name df"
  by (simp add: source_def relation_for_def table_at_opened)

lemma table_at_files_upd [simp]:
  "table_at (st\<lparr>files := (files st)(p \<mapsto> db)\<rparr>) p s t = tables db (s, t)"
  by (simp add: table_at_def)

lemma schemas_at_files_upd [simp]:
  "schemas_at (st\<lparr>files := (files st)(p \<mapsto> db)\<rparr>) p = schemas db"
  by (simp add: schemas_at_def)

lemma opened_files_upd [simp]:
  "opened (st\<lparr>files := (files st)(p \<mapsto> db)\<rparr>) p = db"
  by (simp add: opened_def)

subsection \<open>The three statements on a database\<close>

lemma run_create_schema:
  "run env pv sql_create_schema db =
     (if execute_fails env sql_create_schema then Inl StoreException
      else Inr (db\<lparr>schemas := insert ''raw'' (schemas db)\<rparr>))"
  by (simp add: run_def sql_create_schema_def)

lemma resolve_players:
  "resolve env (load_locals P S) db ''df_players'' = relation_for env db ''df_players'' P"
  by (simp add: resolve_def relation_for_def load_locals_def split: option.splits)

lemma resolve_player_stats:
  "resolve env (load_locals P S) db ''df_player_stats'' = relation_for env db ''df_player_stats'' S"
  by (simp add: resolve_def relation_for_def load_locals_def split: option.splits)

lemma relation_for_tables [simp]:
  "T (''main'', name) = tables db (''main'', name) \<Longrightarrow>
   relation_for env (db\<lparr>tables := T\<rparr>) name df = relation_for env db name df"
  by (simp add: relation_for_def)

lemma relation_for_schemas [simp]:
  "relation_for env (db\<lparr>schemas := X\<rparr>) name df = relation_for env db name df"
  by (simp add: relation_for_def)

lemma relation_for_schemas_tables [simp]:
  "T (''main'', name) = tables db (''main'', name) \<Longrightarrow>
   relation_for env (db\<lparr>schemas := X, tables := T\<rparr>) name df = relation_for env db name df"
  by (simp add: relation_for_def)

lemma run_raw_players:
  assumes "''raw'' \<in> schemas db"
  shows "run env (load_locals P S) sql_raw_players db =
     (if execute_fails env sql_raw_players then Inl StoreException
      else case relation_for env db ''df_players'' P of
             Inl e \<Rightarrow> Inl e
           | Inr a \<Rightarrow> Inr (db\<lparr>tables := (tables db)((''raw'', ''players'') \<mapsto> a)\<rparr>))"
  using assms resolve_players [of env P S db]
  by (simp add: run_def sql_raw_players_def)

lemma run_raw_player_stats:
  assumes "''raw'' \<in> schemas db"
  shows "run env (load_locals P S) sql_raw_player_stats db =
     (if execute_fails env sql_raw_player_stats then Inl StoreException
      else case relation_for env db ''df_player_stats'' S of
             Inl e \<Rightarrow> Inl e
           | Inr b \<Rightarrow> Inr (db\<lparr>tables := (tables db)((''raw'', ''player_stats'') \<mapsto> b)\<rparr>))"
  using assms resolve_player_stats [of env P S db]
  by (simp add: run_def sql_raw_player_stats_def)

text \<open>
  The body of the call, statement by statement. The relations are those that the two
  names stand for in the database before the call: the statements write to the schema
  \<^verbatim>\<open>raw\<close> only and so do not change what a name stands for.
\<close>

lemma run_load_steps:
  "run_load env P S db =
     (if execute_fails env sql_create_schema then (Inl StoreException, db)
      else if execute_fails env sql_raw_players
        then (Inl StoreException, db\<lparr>schemas := insert ''raw'' (schemas db)\<rparr>)
      else case relation_for env db ''df_players'' P of
        Inl e \<Rightarrow> (Inl e, db\<lparr>schemas := insert ''raw'' (schemas db)\<rparr>)
      | Inr a \<Rightarrow>
         (if execute_fails env sql_raw_player_stats
            then (Inl StoreException,
                  db\<lparr>schemas := insert ''raw'' (schemas db),
                     tables := (tables db)((''raw'', ''players'') \<mapsto> a)\<rparr>)
          else case relation_for env db ''df_player_stats'' S of
            Inl e \<Rightarrow> (Inl e,
                  db\<lparr>schemas := insert ''raw'' (schemas db),
                     tables := (tables db)((''raw'', ''players'') \<mapsto> a)\<rparr>)
          | Inr b \<Rightarrow> (Inr (),
                  db\<lparr>schemas := insert ''raw'' (schemas db),
                     tables := (tables db)((''raw'', ''players'') \<mapsto> a,
                                           (''raw'', ''player_stats'') \<mapsto> b)\<rparr>)))"
  by (simp add: run_load_def Let_def run_create_schema run_raw_players run_raw_player_stats
        split: sum.splits)

subsection \<open>Single statements\<close>

lemma apply_statement_schema_present:
  "s \<in> schemas db \<Longrightarrow> apply_statement env pv (CreateSchemaIfNotExists s) db = Inr db"
  by (simp add: insert_absorb)

lemma apply_statement_schema_absent:
  "apply_statement env pv (CreateSchemaIfNotExists s) db = Inr db' \<Longrightarrow>
   schemas db' = insert s (schemas db) \<and> tables db' = tables db"
  by auto

lemma apply_statement_table_needs_schema:
  "s \<notin> schemas db \<Longrightarrow>
   apply_statement env pv (CreateOrReplaceTableAs s t name) db = Inl CatalogException"
  by simp

lemma execute_failure_keeps_store:
  "execute env con pv stmt st = (Inl e, st') \<Longrightarrow> st' = st"
  by (auto simp: execute_def split: if_splits option.splits sum.splits)

lemma scan_frame_regular: "regular_frame df \<Longrightarrow> scan_frame env df = Inr df"
  by (auto simp: scan_frame_def regular_frame_def column_names_ok_def)

lemma scan_frame_no_columns: "columns df = [] \<Longrightarrow> scan_frame env df = Inl InvalidInputException"
  by (simp add: scan_frame_def)

lemma scan_frame_columns: "columns df \<noteq> [] \<Longrightarrow> \<exists>r. scan_frame env df = Inr r"
  by (simp add: scan_frame_def)

lemma relation_for_columns: "columns df \<noteq> [] \<Longrightarrow> \<exists>r. relation_for env db name df = Inr r"
  using scan_frame_columns [of df env] by (auto simp: relation_for_def split: option.splits)

subsection \<open>A call that returns without error\<close>

text \<open>The connection is closed on every way out of the call.\<close>

lemma load_to_duckdb_handles:
  "handles (snd (load_to_duckdb env P S p st)) = handles st"
  by (simp add: load_to_duckdb_run)

text \<open>The files at other paths are not touched.\<close>

lemma load_to_duckdb_other_files:
  "q \<noteq> p \<Longrightarrow> files (snd (load_to_duckdb env P S p st)) q = files st q"
  by (simp add: load_to_duckdb_run)


lemma load_to_duckdb_accepted:
  assumes "store_accepts env p"
      and "source env st p ''df_players'' P = Inr a"
      and "source env st p ''df_player_stats'' S = Inr b"
  shows "load_to_duckdb env P S p st =
     (Inr (),
      st\<lparr>files := (files st)(p \<mapsto>
         (opened st p)\<lparr>schemas := insert ''raw'' (schemas (opened st p)),
                        tables := (tables (opened st p))
                           ((''raw'', ''players'') \<mapsto> a,
                            (''raw'', ''player_stats'') \<mapsto> b)\<rparr>)\<rparr>)"
  using assms
  by (simp add: load_to_duckdb_run run_load_steps source_opened store_accepts_def)


lemma regular_players3: "regular_frame players3"
  by (simp add: regular_frame_def players3_def column_names_ok_def lower_def uniform_def
        column_cells_def)

lemma regular_stats2: "regular_frame stats2"
  by (simp add: regular_frame_def stats2_def column_names_ok_def lower_def uniform_def
        column_cells_def)


lemma old_files_tables:
  "table_at old_files ''nba.duckdb'' ''main'' ''df_players'' = None"
  "table_at old_files ''nba.duckdb'' ''main'' ''df_player_stats'' = None"
  "table_at old_files ''nba.duckdb'' ''raw'' ''players'' = Some old_players"
  "table_at old_files ''nba.duckdb'' ''raw'' ''player_stats'' = Some old_stats"
  by (simp_all add: table_at_def old_files_def old_database_def)

lemma no_faults_accepts: "store_accepts no_faults p"
  by (simp add: store_accepts_def no_faults_def)




subsection \<open>Calling twice\<close>








lemma no_files_tables:
  "table_at no_files p s t = None"
  by (simp add: table_at_def no_files_def)



subsection \<open>Calls in which a statement fails\<close>





text \<open>
  Claim C10. The replacement of \<^verbatim>\<open>raw.players\<close> comes before the replacement of
  \<^verbatim>\<open>raw.player_stats\<close>: when the store rejects the schema statement or the
  replacement of \<^verbatim>\<open>raw.players\<close>, or the replacement of \<^verbatim>\<open>raw.players\<close> fails
  because its frame has no columns, the call raises an error and both tables of the
  destination are what they were before the call, also when the store would have taken
  the replacement of \<^verbatim>\<open>raw.player_stats\<close>.
\<close>

theorem load_to_duckdb_players_failure:
  assumes "execute_fails env sql_create_schema \<or> execute_fails env sql_raw_players
         \<or> (columns P = [] \<and> table_at st p ''main'' ''df_players'' = None)"
  shows "isl (fst (load_to_duckdb env P S p st))
       \<and> table_at (snd (load_to_duckdb env P S p st)) p ''raw'' ''players''
           = table_at st p ''raw'' ''players''
       \<and> table_at (snd (load_to_duckdb env P S p st)) p ''raw'' ''player_stats''
           = table_at st p ''raw'' ''player_stats''"
proof -
  have "columns P = [] \<and> table_at st p ''main'' ''df_players'' = None \<Longrightarrow>
      relation_for env (opened st p) ''df_players'' P = Inl InvalidInputException"
    by (simp add: relation_for_def table_at_opened scan_frame_no_columns)
  with assms show ?thesis
    by (auto simp: load_to_duckdb_run run_load_steps table_at_opened)
qed

theorem load_to_duckdb_players_failure_witness:
  "execute_fails players_write_fails sql_raw_players
   \<and> \<not> execute_fails players_write_fails sql_raw_player_stats
   \<and> isl (fst (load_to_duckdb players_write_fails players3 stats2 ''nba.duckdb'' old_files))
   \<and> table_at (snd (load_to_duckdb players_write_fails players3 stats2 ''nba.duckdb'' old_files))
       ''nba.duckdb'' ''raw'' ''players'' = Some old_players
   \<and> table_at (snd (load_to_duckdb players_write_fails players3 stats2 ''nba.duckdb'' old_files))
       ''nba.duckdb'' ''raw'' ''player_stats'' = Some old_stats"
proof -
  have h: "execute_fails players_write_fails sql_raw_players"
    and h': "\<not> execute_fails players_write_fails sql_raw_player_stats"
    by (simp_all add: players_write_fails_def sql_raw_players_def sql_raw_player_stats_def)
  from h h' old_files_tables
    load_to_duckdb_players_failure [OF disjI2 [OF disjI1 [OF h]],
      where S = stats2 and p = "''nba.duckdb''" and st = old_files]
  show ?thesis by simp
qed

subsection \<open>Empty frames and the schema\<close>




lemma run_load_add_schema:
  "fst (run_load env P S (db\<lparr>schemas := insert ''raw'' (schemas db)\<rparr>)) = fst (run_load env P S db)"
  by (simp add: run_load_steps split: sum.splits)

lemma opened_add_schema:
  "opened (add_schema s p st) p = opened st p
   \<or> opened (add_schema s p st) p = (opened st p)\<lparr>schemas := insert s (schemas (opened st p))\<rparr>"
  by (simp add: opened_def add_schema_def split: option.splits)

lemma load_to_duckdb_add_schema:
  "fst (load_to_duckdb env P S p (add_schema ''raw'' p st)) = fst (load_to_duckdb env P S p st)"
  using opened_add_schema [of "''raw''" p st] run_load_add_schema [of env P S "opened st p"]
  by (auto simp: load_to_duckdb_run)

text \<open>
  Claim C9. Whether the schema \<^verbatim>\<open>raw\<close> exists in the destination makes no difference
  to the outcome of \<open>load_to_duckdb\<close>. For a store that carries out the call and frames
  that have a column, the call returns without error whether or not the schema exists.
  Afterwards the schema exists; when it existed before, the set of schemas is unchanged.
  Since a table cannot be created in a schema that is missing
  (\<open>apply_statement_table_needs_schema\<close>), the success for a destination without the
  schema shows that the schema statement runs before the two replacements.
\<close>

theorem load_to_duckdb_schema:
  "fst (load_to_duckdb env P S p (add_schema ''raw'' p st)) = fst (load_to_duckdb env P S p st)
   \<and> (store_accepts env p \<and> columns P \<noteq> [] \<and> columns S \<noteq> [] \<longrightarrow>
        fst (load_to_duckdb env P S p st) = Inr ()
        \<and> ''raw'' \<in> schemas_at (snd (load_to_duckdb env P S p st)) p
        \<and> (''raw'' \<in> schemas_at st p \<longrightarrow>
             schemas_at (snd (load_to_duckdb env P S p st)) p = schemas_at st p))"
proof (intro conjI impI)
  show "fst (load_to_duckdb env P S p (add_schema ''raw'' p st)) = fst (load_to_duckdb env P S p st)"
    by (rule load_to_duckdb_add_schema)
next
  assume h: "store_accepts env p \<and> columns P \<noteq> [] \<and> columns S \<noteq> []"
  obtain a where a: "source env st p ''df_players'' P = Inr a"
    using relation_for_columns [of P env "opened st p" "''df_players''"] h
    by (auto simp: source_opened)
  obtain b where b: "source env st p ''df_player_stats'' S = Inr b"
    using relation_for_columns [of S env "opened st p" "''df_player_stats''"] h
    by (auto simp: source_opened)
  have acc: "store_accepts env p" using h by simp
  note eq = load_to_duckdb_accepted [OF acc a b]
  show "fst (load_to_duckdb env P S p st) = Inr ()"
    by (simp add: eq)
  show "''raw'' \<in> schemas_at (snd (load_to_duckdb env P S p st)) p"
    by (simp add: eq)
  assume "''raw'' \<in> schemas_at st p"
  then show "schemas_at (snd (load_to_duckdb env P S p st)) p = schemas_at st p"
    by (auto simp: eq schemas_at_def opened_def split: option.splits)
qed

theorem load_to_duckdb_schema_witness:
  "store_accepts no_faults ''nba.duckdb''
   \<and> columns players3 \<noteq> [] \<and> columns stats2 \<noteq> []
   \<and> ''raw'' \<in> schemas_at old_files ''nba.duckdb''
   \<and> fst (load_to_duckdb no_faults players3 stats2 ''nba.duckdb'' old_files) = Inr ()
   \<and> schemas_at (snd (load_to_duckdb no_faults players3 stats2 ''nba.duckdb'' old_files))
        ''nba.duckdb'' = schemas_at old_files ''nba.duckdb''"
proof -
  have h2: "''raw'' \<in> schemas_at old_files ''nba.duckdb''"
    by (simp add: schemas_at_def old_files_def old_database_def)
  have h3: "columns players3 \<noteq> []" "columns stats2 \<noteq> []"
    by (simp_all add: players3_def stats2_def)
  from h2 h3 no_faults_accepts [of "''nba.duckdb''"]
    load_to_duckdb_schema [of no_faults players3 stats2 "''nba.duckdb''" old_files]
  show ?thesis by blast
qed

lemma load_to_duckdb_creates_schema:
  "''raw'' \<notin> schemas_at no_files ''nba.duckdb''
   \<and> fst (load_to_duckdb no_faults players3 stats2 ''nba.duckdb'' no_files) = Inr ()
   \<and> schemas_at (snd (load_to_duckdb no_faults players3 stats2 ''nba.duckdb'' no_files))
        ''nba.duckdb'' = {''main'', ''raw''}"
proof -
  have a: "source no_faults no_files ''nba.duckdb'' ''df_players'' players3 = Inr players3"
    by (simp add: source_def no_files_tables scan_frame_regular regular_players3)
  have b: "source no_faults no_files ''nba.duckdb'' ''df_player_stats'' stats2 = Inr stats2"
    by (simp add: source_def no_files_tables scan_frame_regular regular_stats2)
  have o: "opened no_files ''nba.duckdb'' = empty_database"
    by (simp add: opened_def no_files_def)
  have n: "''raw'' \<notin> schemas_at no_files ''nba.duckdb''"
    by (simp add: schemas_at_def no_files_def)
  show ?thesis
    using n by (auto simp: load_to_duckdb_accepted [OF no_faults_accepts a b] o empty_database_def)
qed

section \<open>The script as a whole\<close>

text \<open>
  Since \<open>fetch_player_metadata\<close> never returns a table, a run of the script ends with
  an error at its first step and never reaches the loader: the store is left as it was.
\<close>

lemma main_script_never_loads:
  "isl (fst (main_script env w st)) \<and> snd (snd (main_script env w st)) = st"
  by (simp add: main_script_def fetch_player_metadata_no_table split: prod.splits sum.splits)

end
